theory Spec2Isabelle
  imports Complex_Main "HOL-Library.Log_Nat" "HOL-Library.Signed_Division"
begin

section \<open>Errors\<close>

text \<open>
  The Python sources raise \<^verbatim>\<open>ValueError\<close> with a message, both for a score out of
  range and for a fourth attempt; the database layer raises on a violated foreign key, the
  date library on a date that does not exist, indexing on an empty list and division on a
  zero divisor. A mutator that raises returns
  \<open>Inl (e, s)\<close>: the exception \<open>e\<close> and the state \<open>s\<close> of the object at the raise.
\<close>

datatype error =
    ValueError string
  | OverflowError string
  | IndexError string
  | ZeroDivisionError string
  | IntegrityError string

definition state_after :: "(error \<times> 'a) + 'a \<Rightarrow> 'a" where
  "state_after r = (case r of Inl (e, s) \<Rightarrow> s | Inr s \<Rightarrow> s)"

section \<open>models.py: Status and Pruefungsleistung\<close>

datatype status = OFFEN | BESTANDEN | NICHT_BESTANDEN

text \<open>
  A score is a Python float. Scores are only compared with the constants 1.0, 4.0 and
  5.0, and comparisons of floats are exact, so the finite floats are read as the rationals
  they denote. (NaN and the infinities fail \<^verbatim>\<open>1.0 <= wert <= 5.0\<close> like any other
  value out of range.)
\<close>

record pruefungsleistung =
  pl_note :: rat
  versuchs_nummer :: int
  pl_id :: "int option"

definition note_bereich_fehler :: error where
  "note_bereich_fehler = ValueError ''Note muss zwischen 1.0 und 5.0 liegen.''"

definition note_setter ::
  "pruefungsleistung \<Rightarrow> rat \<Rightarrow> (error \<times> pruefungsleistung) + pruefungsleistung" where
  "note_setter p wert =
     (if \<not> (1 \<le> wert \<and> wert \<le> 5) then Inl (note_bereich_fehler, p)
      else Inr (p\<lparr>pl_note := wert\<rparr>))"

text \<open>
  \<^verbatim>\<open>__init__\<close> sets the private field to 0.0, runs the setter on the argument and, when
  that returns, stores the attempt number and an absent identity. When the setter raises,
  no object comes into existence.
\<close>

definition Pruefungsleistung_init :: "rat \<Rightarrow> int \<Rightarrow> error + pruefungsleistung" where
  "Pruefungsleistung_init n v =
     (case note_setter \<lparr>pl_note = 0, versuchs_nummer = v, pl_id = None\<rparr> n of
        Inl (e, _) \<Rightarrow> Inl e
      | Inr p \<Rightarrow> Inr p)"

definition pl_ist_bestanden :: "pruefungsleistung \<Rightarrow> bool" where
  "pl_ist_bestanden p \<longleftrightarrow> pl_note p \<le> 4"

section \<open>models.py: Modul\<close>

record modul =
  titel :: string
  ects :: int
  status :: status
  geplantes_semester :: int
  pruefungsleistungen :: "pruefungsleistung list"
  m_id :: "int option"

definition Modul_init :: "string \<Rightarrow> int \<Rightarrow> status \<Rightarrow> int \<Rightarrow> modul" where
  "Modul_init t e s g =
     \<lparr>titel = t, ects = e, status = s, geplantes_semester = g,
      pruefungsleistungen = [], m_id = None\<rparr>"

definition aktualisiere_status :: "modul \<Rightarrow> modul" where
  "aktualisiere_status m =
     (if pruefungsleistungen m = [] then m\<lparr>status := OFFEN\<rparr>
      else if pl_ist_bestanden (last (pruefungsleistungen m)) then m\<lparr>status := BESTANDEN\<rparr>
      else if 3 \<le> length (pruefungsleistungen m) then m\<lparr>status := NICHT_BESTANDEN\<rparr>
      else m\<lparr>status := OFFEN\<rparr>)"

definition max_versuche_fehler :: error where
  "max_versuche_fehler = ValueError ''Maximal 3 Versuche erlaubt.''"

definition neue_pruefungsleistung :: "modul \<Rightarrow> rat \<Rightarrow> (error \<times> modul) + modul" where
  "neue_pruefungsleistung m n =
     (if 3 \<le> length (pruefungsleistungen m) then Inl (max_versuche_fehler, m)
      else
        (case Pruefungsleistung_init n (int (length (pruefungsleistungen m)) + 1) of
           Inl e \<Rightarrow> Inl (e, m)
         | Inr leistung \<Rightarrow>
             Inr (aktualisiere_status
                    (m\<lparr>pruefungsleistungen := pruefungsleistungen m @ [leistung]\<rparr>))))"


text \<open>
  The status rule as the specification words it, on the sequence of scores alone:
  no attempts, OPEN; last score at most 4.0, PASSED; otherwise FAILED from three attempts
  on; otherwise OPEN.
\<close>

definition derive_status :: "rat list \<Rightarrow> status" where
  "derive_status scores =
     (if scores = [] then OFFEN
      else if last scores \<le> 4 then BESTANDEN
      else if 3 \<le> length scores then NICHT_BESTANDEN
      else OFFEN)"

text \<open>
  Calling \<^verbatim>\<open>neue_pruefungsleistung\<close> once per score, in sequence, on one module; the
  statuses seen after each call that returned. The run ends at the first call that raises.
\<close>

fun status_verlauf :: "modul \<Rightarrow> rat list \<Rightarrow> status list" where
  "status_verlauf m [] = []"
| "status_verlauf m (n # ns) =
     (case neue_pruefungsleistung m n of
        Inl _ \<Rightarrow> []
      | Inr m' \<Rightarrow> status m' # status_verlauf m' ns)"


section \<open>Python numbers: floats, true division, int()\<close>

text \<open>
  A finite Python float is an IEEE 754 double, read here as the rational it denotes. The
  result of an arithmetic operation is the exact result rounded to the nearest double,
  ties to the even significand: \<open>round_double\<close>. The model covers the normal range (53
  significant bits, no overflow and no subnormals); the durations and grades of this
  program stay far inside it.
\<close>

definition round_half_even :: "rat \<Rightarrow> int" where
  "round_half_even x =
     (let f = \<lfloor>x\<rfloor>; d = x - of_int f
      in if d < 1 / 2 then f else if 1 / 2 < d then f + 1 else if even f then f else f + 1)"

text \<open>The exponent \<open>e\<close> with \<open>2 powi e \<le> \<bar>x\<bar> < 2 powi (e + 1)\<close>, for \<open>x \<noteq> 0\<close>.\<close>

definition binade :: "rat \<Rightarrow> int" where
  "binade x =
     (let (p, q) = quotient_of \<bar>x\<bar>; e0 = bitlen p - bitlen q
      in if 2 powi e0 \<le> \<bar>x\<bar> then e0 else e0 - 1)"

definition round_double :: "rat \<Rightarrow> rat" where
  "round_double x =
     (if x = 0 then 0
      else let u = 2 powi (binade x - 52) in of_int (round_half_even (x / u)) * u)"

text \<open>\<^verbatim>\<open>a / b\<close> on an int and an int, or with a float operand, for \<open>b\<close> not zero.\<close>

definition truediv :: "rat \<Rightarrow> rat \<Rightarrow> rat" where
  "truediv a b = round_double (a / b)"



text \<open>\<^verbatim>\<open>int(x)\<close> on a float drops the fraction: it rounds toward zero.\<close>

definition py_int :: "rat \<Rightarrow> int" where
  "py_int x = (if 0 \<le> x then \<lfloor>x\<rfloor> else \<lceil>x\<rceil>)"


text \<open>
  What \<^verbatim>\<open>int(differenz.total_seconds() / 60)\<close> computes from the microseconds of a
  \<^verbatim>\<open>timedelta\<close>: two float divisions, then the fraction is dropped.
\<close>

definition minuten :: "int \<Rightarrow> int" where
  "minuten U = py_int (truediv (truediv (of_int U) 1000000) 60)"


section \<open>Python's datetime and timedelta\<close>

text \<open>
  A naive \<^verbatim>\<open>datetime\<close> of the standard library, in the proleptic Gregorian calendar.
  Python only ever builds one whose fields pass \<open>valid_datetime\<close>.
\<close>

record datetime =
  year :: int
  month :: int
  day :: int
  hour :: int
  minute :: int
  second :: int
  microsecond :: int

definition is_leap :: "int \<Rightarrow> bool" where
  "is_leap y \<longleftrightarrow> y mod 4 = 0 \<and> (y mod 100 \<noteq> 0 \<or> y mod 400 = 0)"

definition days_in_month :: "int \<Rightarrow> int \<Rightarrow> int" where
  "days_in_month y m =
     (if m = 2 then (if is_leap y then 29 else 28)
      else if m = 4 \<or> m = 6 \<or> m = 9 \<or> m = 11 then 30 else 31)"

definition days_before_year :: "int \<Rightarrow> int" where
  "days_before_year y = (y - 1) * 365 + (y - 1) div 4 - (y - 1) div 100 + (y - 1) div 400"

definition days_before_month :: "int \<Rightarrow> int \<Rightarrow> int" where
  "days_before_month y m =
     [0, 31, 59, 90, 120, 151, 181, 212, 243, 273, 304, 334] ! nat (m - 1)
     + (if 2 < m \<and> is_leap y then 1 else 0)"

definition ymd2ord :: "int \<Rightarrow> int \<Rightarrow> int \<Rightarrow> int" where
  "ymd2ord y m d = days_before_year y + days_before_month y m + d"

definition toordinal :: "datetime \<Rightarrow> int" where
  "toordinal dt = ymd2ord (year dt) (month dt) (day dt)"

definition valid_datetime :: "datetime \<Rightarrow> bool" where
  "valid_datetime dt \<longleftrightarrow>
     1 \<le> year dt \<and> year dt \<le> 9999 \<and> 1 \<le> month dt \<and> month dt \<le> 12 \<and>
     1 \<le> day dt \<and> day dt \<le> days_in_month (year dt) (month dt) \<and>
     0 \<le> hour dt \<and> hour dt < 24 \<and> 0 \<le> minute dt \<and> minute dt < 60 \<and>
     0 \<le> second dt \<and> second dt < 60 \<and> 0 \<le> microsecond dt \<and> microsecond dt < 1000000"

text \<open>
  \<^verbatim>\<open>dt.replace(year=y, month=m)\<close> builds a new datetime from the changed fields and so
  checks them again, the year first, then the month, then the day against the length of
  the new month. (The texts of the library's messages differ between its versions.)
\<close>

definition datetime_replace :: "datetime \<Rightarrow> int \<Rightarrow> int \<Rightarrow> error + datetime" where
  "datetime_replace dt y m =
     (if \<not> (1 \<le> y \<and> y \<le> 9999) then Inl (ValueError ''year is out of range'')
      else if \<not> (1 \<le> m \<and> m \<le> 12) then Inl (ValueError ''month must be in 1..12'')
      else if \<not> (1 \<le> day dt \<and> day dt \<le> days_in_month y m)
        then Inl (ValueError ''day is out of range for month'')
      else Inr (dt\<lparr>year := y, month := m\<rparr>))"

text \<open>
  \<^verbatim>\<open>dt - timedelta(days=1)\<close>: the same time of day on the date whose ordinal is one less;
  there is no day before 0001-01-01.
\<close>

definition minus_one_day :: "datetime \<Rightarrow> error + datetime" where
  "minus_one_day dt =
     (if 1 < day dt then Inr (dt\<lparr>day := day dt - 1\<rparr>)
      else if 1 < month dt
        then Inr (dt\<lparr>month := month dt - 1, day := days_in_month (year dt) (month dt - 1)\<rparr>)
      else if 1 < year dt then Inr (dt\<lparr>year := year dt - 1, month := 12, day := 31\<rparr>)
      else Inl (OverflowError ''date value out of range''))"

text \<open>
  A \<^verbatim>\<open>timedelta\<close> keeps days, seconds and microseconds, normalised so that the seconds
  are below one day and the microseconds below one second; the days carry the sign.
\<close>

record timedelta =
  days :: int
  seconds :: int
  microseconds :: int

definition timedelta_init :: "int \<Rightarrow> int \<Rightarrow> int \<Rightarrow> timedelta" where
  "timedelta_init d s us =
     (let total = (d * 86400 + s) * 1000000 + us
      in \<lparr>days = total div 86400000000,
          seconds = total mod 86400000000 div 1000000,
          microseconds = total mod 1000000\<rparr>)"

definition datetime_sub :: "datetime \<Rightarrow> datetime \<Rightarrow> timedelta" where
  "datetime_sub a b =
     timedelta_init (toordinal a - toordinal b)
       ((second a + minute a * 60 + hour a * 3600) - (second b + minute b * 60 + hour b * 3600))
       (microsecond a - microsecond b)"

definition total_microseconds :: "timedelta \<Rightarrow> int" where
  "total_microseconds td = (days td * 86400 + seconds td) * 1000000 + microseconds td"

text \<open>\<^verbatim>\<open>td.total_seconds()\<close> divides the microseconds, an int, by \<^verbatim>\<open>10**6\<close>: a float.\<close>

definition total_seconds :: "timedelta \<Rightarrow> rat" where
  "total_seconds td = truediv (of_int (total_microseconds td)) 1000000"

text \<open>\<^verbatim>\<open>datetime(y, mo, d, h, mi, s)\<close> for fields in range, the microsecond left at 0.\<close>

definition datetime_of :: "int \<Rightarrow> int \<Rightarrow> int \<Rightarrow> int \<Rightarrow> int \<Rightarrow> int \<Rightarrow> datetime" where
  "datetime_of y mo d h mi s =
     \<lparr>year = y, month = mo, day = d, hour = h, minute = mi, second = s, microsecond = 0\<rparr>"


section \<open>models.py: ZeitEintrag, Lerntermin, Lernsession\<close>

text \<open>
  The base class holds the common fields; the two subclasses extend it. The base class is
  documented as abstract and never instantiated, so an entry is one of the two variants.
\<close>

record zeiteintrag =
  datum :: datetime
  start_zeit :: datetime
  modul_id :: "int option"
  ze_id :: "int option"

record lerntermin = zeiteintrag +
  geplante_dauer :: int
  beschreibung :: string

record lernsession = zeiteintrag +
  end_zeit :: datetime
  tatsaechliche_dauer :: int

definition Lerntermin_init ::
  "datetime \<Rightarrow> datetime \<Rightarrow> int \<Rightarrow> string \<Rightarrow> int option \<Rightarrow> lerntermin" where
  "Lerntermin_init d st gd b mid =
     \<lparr>datum = d, start_zeit = st, modul_id = mid, ze_id = None,
      geplante_dauer = gd, beschreibung = b\<rparr>"

text \<open>\<^verbatim>\<open>_berechne_dauer\<close> reads the start and the end of the session it is called on.\<close>

definition berechne_dauer :: "lernsession \<Rightarrow> int" where
  "berechne_dauer s =
     (let differenz = datetime_sub (end_zeit s) (start_zeit s)
      in py_int (truediv (total_seconds differenz) 60))"

text \<open>
  \<^verbatim>\<open>__init__\<close> stores the start and the end and then the computed duration. (Before
  that last assignment the attribute does not exist; the record carries 0 there.)
\<close>

definition Lernsession_init ::
  "datetime \<Rightarrow> datetime \<Rightarrow> datetime \<Rightarrow> int option \<Rightarrow> lernsession" where
  "Lernsession_init d st en mid =
     (let s = \<lparr>datum = d, start_zeit = st, modul_id = mid, ze_id = None,
               end_zeit = en, tatsaechliche_dauer = 0\<rparr>
      in s\<lparr>tatsaechliche_dauer := berechne_dauer s\<rparr>)"

datatype eintrag = Termin lerntermin | Session lernsession

definition eintrag_modul_id :: "eintrag \<Rightarrow> int option" where
  "eintrag_modul_id s = (case s of Termin t \<Rightarrow> modul_id t | Session l \<Rightarrow> modul_id l)"

text \<open>\<^verbatim>\<open>dauer()\<close>, dispatched on the class of the entry.\<close>

definition dauer :: "eintrag \<Rightarrow> int" where
  "dauer s = (case s of Termin t \<Rightarrow> geplante_dauer t | Session l \<Rightarrow> tatsaechliche_dauer l)"

text \<open>The loop of \<^verbatim>\<open>Modul.berechne_aufwand\<close>, with its running total.\<close>

fun aufwand_schleife :: "modul \<Rightarrow> eintrag list \<Rightarrow> int \<Rightarrow> int" where
  "aufwand_schleife m [] gesamt = gesamt"
| "aufwand_schleife m (s # sessions) gesamt =
     (if eintrag_modul_id s = m_id m then aufwand_schleife m sessions (gesamt + dauer s)
      else aufwand_schleife m sessions gesamt)"

definition berechne_aufwand :: "modul \<Rightarrow> eintrag list \<Rightarrow> int" where
  "berechne_aufwand m sessions = aufwand_schleife m sessions 0"


section \<open>models.py: Semester and Studiengang\<close>

record semester =
  nummer :: int
  start_datum :: datetime
  end_datum :: datetime
  sem_id :: "int option"

definition Semester_init :: "int \<Rightarrow> datetime \<Rightarrow> datetime \<Rightarrow> semester" where
  "Semester_init n s e = \<lparr>nummer = n, start_datum = s, end_datum = e, sem_id = None\<rparr>"

record studiengang =
  name :: string
  regelstudienzeit :: int
  zielschnitt :: rat
  semester_liste :: "semester list"
  module :: "modul list"
  sg_id :: "int option"

definition Studiengang_init :: "string \<Rightarrow> int \<Rightarrow> rat \<Rightarrow> studiengang" where
  "Studiengang_init n r z =
     \<lparr>name = n, regelstudienzeit = r, zielschnitt = z, semester_liste = [], module = [],
      sg_id = None\<rparr>"

text \<open>
  The inner loop of \<^verbatim>\<open>generiere_semester\<close>:
  \<^verbatim>\<open>while monat > 12: monat = monat - 12; jahr = jahr + 1\<close>.
\<close>

function jahresueberlauf :: "int \<Rightarrow> int \<Rightarrow> int \<times> int" where
  "jahresueberlauf monat jahr =
     (if 12 < monat then jahresueberlauf (monat - 12) (jahr + 1) else (monat, jahr))"
  by pat_completeness auto
termination
  by (relation "measure (\<lambda>(monat, jahr). nat monat)") auto

text \<open>
  The body of the \<^verbatim>\<open>for\<close> loop, over the remaining values of \<^verbatim>\<open>i\<close>, with the cursor and
  the list built so far. When the date library raises, the list holds the semesters
  appended before.
\<close>

fun semester_schleife ::
  "int list \<Rightarrow> datetime \<Rightarrow> semester list \<Rightarrow> (error \<times> semester list) + semester list" where
  "semester_schleife [] aktueller_start liste = Inr liste"
| "semester_schleife (i # rest) aktueller_start liste =
     (case jahresueberlauf (month aktueller_start + 6) (year aktueller_start) of
        (monat, jahr) \<Rightarrow>
          (case datetime_replace aktueller_start jahr monat of
             Inl e \<Rightarrow> Inl (e, liste)
           | Inr naechster_start \<Rightarrow>
               (case minus_one_day naechster_start of
                  Inl e \<Rightarrow> Inl (e, liste)
                | Inr ende \<Rightarrow>
                    semester_schleife rest naechster_start
                      (liste @ [Semester_init i aktueller_start ende]))))"

text \<open>\<^verbatim>\<open>range(1, self.regelstudienzeit + 1)\<close> is the list \<open>[1..regelstudienzeit]\<close>.\<close>

definition generiere_semester ::
  "studiengang \<Rightarrow> datetime \<Rightarrow> (error \<times> studiengang) + studiengang" where
  "generiere_semester sg start =
     (case semester_schleife [1..regelstudienzeit sg] start [] of
        Inl (e, liste) \<Rightarrow> Inl (e, sg\<lparr>semester_liste := liste\<rparr>)
      | Inr liste \<Rightarrow> Inr (sg\<lparr>semester_liste := liste\<rparr>))"






section \<open>database.py: the SQLite store\<close>

text \<open>
  A table is the list of its rows in rowid order, each with its \<^verbatim>\<open>id\<close>, and the counter
  that \<^verbatim>\<open>AUTOINCREMENT\<close> keeps: the largest rowid the table has ever handed out. A new
  row gets one more than the larger of the counter and the rowids present, and
  \<^verbatim>\<open>cursor.lastrowid\<close> reports it.
\<close>

record 'r tabelle =
  zeilen :: "(int \<times> 'r) list"
  seq :: int





definition update_zeile :: "'r tabelle \<Rightarrow> int \<Rightarrow> ('r \<Rightarrow> 'r) \<Rightarrow> 'r tabelle" where
  "update_zeile t i f = t\<lparr>zeilen := map (\<lambda>(j, r). if j = i then (j, f r) else (j, r)) (zeilen t)\<rparr>"


definition hat_id :: "'r tabelle \<Rightarrow> int \<Rightarrow> bool" where
  "hat_id t i \<longleftrightarrow> i \<in> set (map fst (zeilen t))"











subsection \<open>StudiengangRepository.speichern\<close>






subsection \<open>ModulRepository.speichern\<close>






subsection \<open>DatenbankManager.speichern\<close>



subsection \<open>Loading\<close>













subsection \<open>An object graph without its identities\<close>







subsection \<open>What a save does to the attempts, in the words of the specification\<close>






subsection \<open>The rows that belong to saved objects\<close>















section \<open>Properties of Pruefungsleistung and Modul\<close>

lemma note_setter_ok:
  "1 \<le> w \<Longrightarrow> w \<le> 5 \<Longrightarrow> note_setter p w = Inr (p\<lparr>pl_note := w\<rparr>)"
  by (simp add: note_setter_def)

lemma note_setter_raises:
  "\<not> (1 \<le> w \<and> w \<le> 5) \<Longrightarrow> note_setter p w = Inl (note_bereich_fehler, p)"
  by (simp add: note_setter_def)

lemma Pruefungsleistung_init_ok:
  "1 \<le> n \<Longrightarrow> n \<le> 5 \<Longrightarrow>
   Pruefungsleistung_init n v = Inr \<lparr>pl_note = n, versuchs_nummer = v, pl_id = None\<rparr>"
  by (simp add: Pruefungsleistung_init_def note_setter_def)

lemma Pruefungsleistung_init_raises:
  "\<not> (1 \<le> n \<and> n \<le> 5) \<Longrightarrow> Pruefungsleistung_init n v = Inl note_bereich_fehler"
  by (simp add: Pruefungsleistung_init_def note_setter_def)

lemma Pruefungsleistung_init_Inr:
  "Pruefungsleistung_init n v = Inr p \<Longrightarrow>
   1 \<le> n \<and> n \<le> 5 \<and> p = \<lparr>pl_note = n, versuchs_nummer = v, pl_id = None\<rparr>"
  by (cases "1 \<le> n \<and> n \<le> 5")
     (simp_all add: Pruefungsleistung_init_ok Pruefungsleistung_init_raises)

lemma status_aktualisiere_status:
  "status (aktualisiere_status m) = derive_status (map pl_note (pruefungsleistungen m))"
  by (simp add: aktualisiere_status_def derive_status_def pl_ist_bestanden_def last_map)

lemma pruefungsleistungen_aktualisiere_status [simp]:
  "pruefungsleistungen (aktualisiere_status m) = pruefungsleistungen m"
  by (simp add: aktualisiere_status_def)

lemma neue_pruefungsleistung_Inr:
  assumes "neue_pruefungsleistung m n = Inr m'"
  shows "length (pruefungsleistungen m) < 3 \<and> 1 \<le> n \<and> n \<le> 5 \<and>
         m' = aktualisiere_status
                (m\<lparr>pruefungsleistungen := pruefungsleistungen m @
                   [\<lparr>pl_note = n, versuchs_nummer = int (length (pruefungsleistungen m)) + 1,
                     pl_id = None\<rparr>]\<rparr>)"
proof -
  from assms have len: "length (pruefungsleistungen m) < 3"
    by (auto simp: neue_pruefungsleistung_def split: if_splits)
  with assms obtain p
    where p: "Pruefungsleistung_init n (int (length (pruefungsleistungen m)) + 1) = Inr p"
      and m': "m' = aktualisiere_status
                      (m\<lparr>pruefungsleistungen := pruefungsleistungen m @ [p]\<rparr>)"
    by (auto simp: neue_pruefungsleistung_def split: sum.splits)
  from Pruefungsleistung_init_Inr [OF p] len m' show ?thesis by simp
qed

text \<open>
  C1. After \<^verbatim>\<open>aktualisiere_status\<close>, and so after every \<^verbatim>\<open>neue_pruefungsleistung\<close>
  that returns, the status of a module is the specification's rule applied to the scores of
  its attempts: OPEN without attempts, PASSED when the last score is at most 4.0, FAILED
  when the last attempt fails and there are three attempts or more, OPEN otherwise. On a
  new module the scores 5.0, 5.0, 3.0 give the statuses OPEN, OPEN, PASSED, and the
  scores 5.0, 5.0, 5.0 end in FAILED.
\<close>

theorem C1_status_is_function_of_attempts:
  "status (aktualisiere_status m) = derive_status (map pl_note (pruefungsleistungen m))
   \<and> (\<forall>n m'. neue_pruefungsleistung m n = Inr m' \<longrightarrow>
        status m' = derive_status (map pl_note (pruefungsleistungen m')))
   \<and> status_verlauf (Modul_init t e OFFEN g) [5, 5, 3] = [OFFEN, OFFEN, BESTANDEN]
   \<and> status_verlauf (Modul_init t e OFFEN g) [5, 5, 5] = [OFFEN, OFFEN, NICHT_BESTANDEN]"
proof (intro conjI allI impI)
  show "status (aktualisiere_status m) = derive_status (map pl_note (pruefungsleistungen m))"
    by (rule status_aktualisiere_status)
next
  fix n m'
  assume "neue_pruefungsleistung m n = Inr m'"
  then have "m' = aktualisiere_status
                (m\<lparr>pruefungsleistungen := pruefungsleistungen m @
                   [\<lparr>pl_note = n, versuchs_nummer = int (length (pruefungsleistungen m)) + 1,
                     pl_id = None\<rparr>]\<rparr>)"
    by (simp add: neue_pruefungsleistung_Inr)
  then show "status m' = derive_status (map pl_note (pruefungsleistungen m'))"
    by (simp only: status_aktualisiere_status pruefungsleistungen_aktualisiere_status)
next
  show "status_verlauf (Modul_init t e OFFEN g) [5, 5, 3] = [OFFEN, OFFEN, BESTANDEN]"
    by (simp add: Modul_init_def neue_pruefungsleistung_def Pruefungsleistung_init_ok
        aktualisiere_status_def pl_ist_bestanden_def)
next
  show "status_verlauf (Modul_init t e OFFEN g) [5, 5, 5] = [OFFEN, OFFEN, NICHT_BESTANDEN]"
    by (simp add: Modul_init_def neue_pruefungsleistung_def Pruefungsleistung_init_ok
        aktualisiere_status_def pl_ist_bestanden_def)
qed

theorem C1_witness:
  "neue_pruefungsleistung (Modul_init ''Mathematik I'' 5 OFFEN 1) 3
     = Inr \<lparr>titel = ''Mathematik I'', ects = 5, status = BESTANDEN, geplantes_semester = 1,
            pruefungsleistungen = [\<lparr>pl_note = 3, versuchs_nummer = 1, pl_id = None\<rparr>],
            m_id = None\<rparr>
   \<and> derive_status [3] = BESTANDEN"
proof -
  let ?m = "Modul_init ''Mathematik I'' 5 OFFEN 1"
  let ?m' = "\<lparr>titel = ''Mathematik I'', ects = 5, status = BESTANDEN, geplantes_semester = 1,
            pruefungsleistungen = [\<lparr>pl_note = 3, versuchs_nummer = 1, pl_id = None\<rparr>],
            m_id = None\<rparr>"
  have run: "neue_pruefungsleistung ?m 3 = Inr ?m'"
    by (simp add: Modul_init_def neue_pruefungsleistung_def Pruefungsleistung_init_ok
        aktualisiere_status_def pl_ist_bestanden_def)
  from C1_status_is_function_of_attempts [of ?m "''x''" 0 0] run
  have "status ?m' = derive_status (map pl_note (pruefungsleistungen ?m'))"
    by blast
  with run show ?thesis by simp
qed

text \<open>
  C2. A module that already holds three attempts (or more) refuses a further one:
  \<^verbatim>\<open>neue_pruefungsleistung\<close> raises the capacity error and the module, with its list of
  attempts and its status, is as before. With fewer than three attempts and a score in
  range, exactly one attempt is appended at the end, numbered one more than the previous
  count and without identity, and the status is recomputed on the extended list.
\<close>

theorem C2_capacity_and_append:
  "(3 \<le> length (pruefungsleistungen m) \<longrightarrow>
      neue_pruefungsleistung m n = Inl (max_versuche_fehler, m))
   \<and> (length (pruefungsleistungen m) < 3 \<and> 1 \<le> n \<and> n \<le> 5 \<longrightarrow>
      neue_pruefungsleistung m n =
        Inr (aktualisiere_status
               (m\<lparr>pruefungsleistungen := pruefungsleistungen m @
                  [\<lparr>pl_note = n, versuchs_nummer = int (length (pruefungsleistungen m)) + 1,
                    pl_id = None\<rparr>]\<rparr>)))"
  by (simp add: neue_pruefungsleistung_def Pruefungsleistung_init_ok)

theorem C2_witness:
  "neue_pruefungsleistung
     \<lparr>titel = ''Analysis'', ects = 5, status = NICHT_BESTANDEN, geplantes_semester = 1,
      pruefungsleistungen =
        [\<lparr>pl_note = 5, versuchs_nummer = 1, pl_id = None\<rparr>,
         \<lparr>pl_note = 5, versuchs_nummer = 2, pl_id = None\<rparr>,
         \<lparr>pl_note = 5, versuchs_nummer = 3, pl_id = None\<rparr>],
      m_id = None\<rparr> 2
     = Inl (max_versuche_fehler,
         \<lparr>titel = ''Analysis'', ects = 5, status = NICHT_BESTANDEN, geplantes_semester = 1,
          pruefungsleistungen =
            [\<lparr>pl_note = 5, versuchs_nummer = 1, pl_id = None\<rparr>,
             \<lparr>pl_note = 5, versuchs_nummer = 2, pl_id = None\<rparr>,
             \<lparr>pl_note = 5, versuchs_nummer = 3, pl_id = None\<rparr>],
          m_id = None\<rparr>)
   \<and> neue_pruefungsleistung
       \<lparr>titel = ''Analysis'', ects = 5, status = OFFEN, geplantes_semester = 1,
        pruefungsleistungen = [\<lparr>pl_note = 5, versuchs_nummer = 1, pl_id = None\<rparr>],
        m_id = None\<rparr> 2
     = Inr \<lparr>titel = ''Analysis'', ects = 5, status = BESTANDEN, geplantes_semester = 1,
            pruefungsleistungen =
              [\<lparr>pl_note = 5, versuchs_nummer = 1, pl_id = None\<rparr>,
               \<lparr>pl_note = 2, versuchs_nummer = 2, pl_id = None\<rparr>],
            m_id = None\<rparr>"
proof -
  let ?p1 = "\<lparr>pl_note = 5, versuchs_nummer = 1, pl_id = None\<rparr>"
  let ?full = "\<lparr>titel = ''Analysis'', ects = 5, status = NICHT_BESTANDEN,
      geplantes_semester = 1,
      pruefungsleistungen =
        [?p1, \<lparr>pl_note = 5, versuchs_nummer = 2, pl_id = None\<rparr>,
         \<lparr>pl_note = 5, versuchs_nummer = 3, pl_id = None\<rparr>],
      m_id = None\<rparr>"
  let ?one = "\<lparr>titel = ''Analysis'', ects = 5, status = OFFEN, geplantes_semester = 1,
        pruefungsleistungen = [?p1], m_id = None\<rparr>"
  have "3 \<le> length (pruefungsleistungen ?full)"
    by simp
  with C2_capacity_and_append [of ?full 2]
  have a: "neue_pruefungsleistung ?full 2 = Inl (max_versuche_fehler, ?full)"
    by blast
  have "length (pruefungsleistungen ?one) < 3 \<and> (1::rat) \<le> 2 \<and> (2::rat) \<le> 5"
    by simp
  with C2_capacity_and_append [of ?one 2]
  have "neue_pruefungsleistung ?one 2 =
        Inr (aktualisiere_status
               (?one\<lparr>pruefungsleistungen := pruefungsleistungen ?one @
                  [\<lparr>pl_note = 2, versuchs_nummer = int (length (pruefungsleistungen ?one)) + 1,
                    pl_id = None\<rparr>]\<rparr>))"
    by blast
  then have b: "neue_pruefungsleistung ?one 2 =
       Inr \<lparr>titel = ''Analysis'', ects = 5, status = BESTANDEN, geplantes_semester = 1,
            pruefungsleistungen =
              [?p1, \<lparr>pl_note = 2, versuchs_nummer = 2, pl_id = None\<rparr>],
            m_id = None\<rparr>"
    by (simp add: aktualisiere_status_def pl_ist_bestanden_def)
  from a b show ?thesis by simp
qed

text \<open>
  C5. Constructing an attempt with a score outside [1.0, 5.0] raises the validation
  error and yields no attempt; the setter with such a value raises the same error and the
  attempt is as before. A constructed attempt has its score in [1.0, 5.0], and whatever
  the setter is given, an attempt with its score in range has it in range afterwards.
  An attempt is passing exactly when its score is at most 4.0.
\<close>

theorem C5_score_range:
  "(\<not> (1 \<le> n \<and> n \<le> 5) \<longrightarrow> Pruefungsleistung_init n v = Inl note_bereich_fehler)
   \<and> (\<not> (1 \<le> w \<and> w \<le> 5) \<longrightarrow> note_setter p w = Inl (note_bereich_fehler, p))
   \<and> (\<forall>q. Pruefungsleistung_init n v = Inr q \<longrightarrow> 1 \<le> pl_note q \<and> pl_note q \<le> 5)
   \<and> (1 \<le> pl_note p \<and> pl_note p \<le> 5 \<longrightarrow>
        1 \<le> pl_note (state_after (note_setter p w)) \<and>
        pl_note (state_after (note_setter p w)) \<le> 5)
   \<and> (pl_ist_bestanden p \<longleftrightarrow> pl_note p \<le> 4)"
proof (intro conjI allI impI)
  fix q
  assume "Pruefungsleistung_init n v = Inr q"
  from Pruefungsleistung_init_Inr [OF this]
  show "1 \<le> pl_note q" and "pl_note q \<le> 5" by simp_all
next
  assume "1 \<le> pl_note p \<and> pl_note p \<le> 5"
  then show "1 \<le> pl_note (state_after (note_setter p w))"
    and "pl_note (state_after (note_setter p w)) \<le> 5"
    by (simp_all add: note_setter_def state_after_def)
qed (simp_all add: Pruefungsleistung_init_raises note_setter_raises pl_ist_bestanden_def)

theorem C5_witness:
  "Pruefungsleistung_init 6 1 = Inl note_bereich_fehler
   \<and> note_setter \<lparr>pl_note = 2, versuchs_nummer = 1, pl_id = None\<rparr> (1 / 2)
       = Inl (note_bereich_fehler, \<lparr>pl_note = 2, versuchs_nummer = 1, pl_id = None\<rparr>)
   \<and> Pruefungsleistung_init 4 1 = Inr \<lparr>pl_note = 4, versuchs_nummer = 1, pl_id = None\<rparr>
   \<and> pl_ist_bestanden \<lparr>pl_note = 4, versuchs_nummer = 1, pl_id = None\<rparr>
   \<and> state_after (note_setter \<lparr>pl_note = 2, versuchs_nummer = 1, pl_id = None\<rparr> 3)
       = \<lparr>pl_note = 3, versuchs_nummer = 1, pl_id = None\<rparr>"
proof -
  let ?p = "\<lparr>pl_note = 2, versuchs_nummer = 1, pl_id = None\<rparr>"
  let ?q = "\<lparr>pl_note = 4, versuchs_nummer = 1, pl_id = None\<rparr>"
  have out: "\<not> ((1::rat) \<le> 6 \<and> (6::rat) \<le> 5)" "\<not> ((1::rat) \<le> 1 / 2 \<and> (1::rat) / 2 \<le> 5)"
    by simp_all
  from C5_score_range [of 6 1 "1 / 2" ?p] out
  have a: "Pruefungsleistung_init 6 1 = Inl note_bereich_fehler"
    and b: "note_setter ?p (1 / 2) = Inl (note_bereich_fehler, ?p)"
    by blast+
  have c: "Pruefungsleistung_init 4 1 = Inr ?q"
    by (simp add: Pruefungsleistung_init_ok)
  with C5_score_range [of 4 1 3 ?q]
  have d: "1 \<le> pl_note ?q \<and> pl_note ?q \<le> 5" and e: "pl_ist_bestanden ?q"
    by simp_all
  have "1 \<le> pl_note ?p \<and> pl_note ?p \<le> 5" by simp
  with C5_score_range [of 4 1 3 ?p]
  have "1 \<le> pl_note (state_after (note_setter ?p 3))" by blast
  moreover have "state_after (note_setter ?p 3) = \<lparr>pl_note = 3, versuchs_nummer = 1, pl_id = None\<rparr>"
    by (simp add: note_setter_def state_after_def)
  ultimately show ?thesis using a b c e by simp
qed

section \<open>Properties of the float model\<close>

lemma round_half_even_error: "\<bar>of_int (round_half_even y) - y\<bar> \<le> 1 / 2"
proof -
  have "of_int \<lfloor>y\<rfloor> \<le> y" "y < of_int \<lfloor>y\<rfloor> + 1" by linarith+
  then show ?thesis
    by (auto simp: round_half_even_def Let_def abs_le_iff)
qed

lemma round_half_even_of_int: "round_half_even (of_int k) = k"
  by (simp add: round_half_even_def)

lemma binade_le:
  assumes "x \<noteq> 0"
  shows "2 powi binade x \<le> \<bar>x\<bar>"
proof -
  obtain p q where pq: "quotient_of \<bar>x\<bar> = (p, q)" by (cases "quotient_of \<bar>x\<bar>")
  then have q: "0 < q" and x: "\<bar>x\<bar> = of_int p / of_int q"
    by (simp_all add: quotient_of_denom_pos quotient_of_div)
  with assms have p: "0 < p"
    by (metis abs_ge_zero divide_nonpos_pos linorder_not_le of_int_0_less_iff of_int_pos zero_less_abs_iff)
  let ?e = "bitlen p - bitlen q"
  have bp: "2 ^ nat (bitlen p - 1) \<le> p" using bitlen_bounds [OF p] by simp
  have bq: "q < 2 ^ nat (bitlen q)" using bitlen_bounds [OF q] by simp
  have bp1: "1 \<le> bitlen p" using p by (simp add: bitlen_alt_def)
  have bq0: "0 \<le> bitlen q" by (rule bitlen_nonneg)
  have "(2::rat) powi (?e - 1) = 2 powi (bitlen p - 1) / 2 powi (bitlen q)"
    by (simp add: power_int_diff)
  also have "\<dots> = 2 ^ nat (bitlen p - 1) / 2 ^ nat (bitlen q)"
    using bp1 bq0 by (simp add: power_int_nonneg_exp)
  also have "\<dots> \<le> of_int p / of_int q"
  proof (rule frac_le)
    show "(2::rat) ^ nat (bitlen p - 1) \<le> of_int p"
      using bp by (metis of_int_le_iff of_int_numeral of_int_power)
    show "of_int q \<le> (2::rat) ^ nat (bitlen q)"
      using bq by (metis less_imp_le of_int_le_iff of_int_numeral of_int_power)
    show "(0::rat) < of_int q" using q by simp
    show "(0::rat) \<le> of_int p" using p by simp
  qed
  finally have low: "(2::rat) powi (?e - 1) \<le> \<bar>x\<bar>" by (simp add: x)
  show ?thesis
    using low by (simp add: binade_def pq Let_def)
qed

lemma round_double_error:
  "\<bar>round_double x - x\<bar> \<le> \<bar>x\<bar> / 2 ^ 53"
proof (cases "x = 0")
  case True
  then show ?thesis by (simp add: round_double_def)
next
  case False
  define u :: rat where "u = 2 powi (binade x - 52)"
  have u: "0 < u" by (simp add: u_def)
  have rd: "round_double x = of_int (round_half_even (x / u)) * u"
    using False by (simp add: round_double_def u_def Let_def)
  have "\<bar>round_double x - x\<bar> = \<bar>of_int (round_half_even (x / u)) - x / u\<bar> * u"
  proof -
    have "round_double x - x = (of_int (round_half_even (x / u)) - x / u) * u"
      using u by (simp add: rd field_simps)
    then show ?thesis using u by (simp add: abs_mult)
  qed
  also have "\<dots> \<le> (1 / 2) * u"
    using u round_half_even_error [of "x / u"] by (intro mult_right_mono) simp_all
  also have "\<dots> = 2 powi binade x / 2 ^ 53"
    by (simp add: u_def power_int_diff)
  also have "\<dots> \<le> \<bar>x\<bar> / 2 ^ 53"
    using binade_le [OF False] by (simp add: divide_right_mono)
  finally show ?thesis .
qed

lemma round_double_of_int:
  assumes "\<bar>k\<bar> < 2 ^ 53"
  shows "round_double (of_int k) = of_int k"
proof (cases "k = 0")
  case True
  then show ?thesis by (simp add: round_double_def)
next
  case False
  let ?x = "of_int k :: rat"
  have x0: "?x \<noteq> 0" using False by simp
  have "2 powi binade ?x \<le> \<bar>?x\<bar>" by (rule binade_le [OF x0])
  also have "\<bar>?x\<bar> < 2 ^ 53"
    using assms by (metis of_int_abs of_int_less_iff of_int_numeral of_int_power)
  finally have "(2::rat) powi binade ?x < 2 powi 53" by simp
  then have e: "binade ?x < 53"
    by (metis linorder_not_le one_le_numeral power_int_increasing)
  define n where "n = nat (52 - binade ?x)"
  have u: "(2::rat) powi (binade ?x - 52) = 1 / 2 ^ n"
  proof -
    have "binade ?x - 52 = - int n" using e by (simp add: n_def)
    then show ?thesis by (simp add: power_int_minus_divide)
  qed
  have "?x / (1 / 2 ^ n) = of_int (k * 2 ^ n)" by simp
  then have "round_half_even (?x / (1 / 2 ^ n)) = k * 2 ^ n"
    by (simp only: round_half_even_of_int)
  then show ?thesis
    using x0 by (simp add: round_double_def Let_def u)
qed

text \<open>
  Dividing a count of microseconds by \<^verbatim>\<open>10**6\<close> and then by 60 in floats and dropping the
  fraction gives the whole minutes, rounded toward zero, as long as the count is below
  \<open>2 ^ 51\<close> (about 71 years): the two roundings move the quotient by less than one
  microsecond's worth of a minute.
\<close>

lemma minuten_exact:
  assumes dvd: "60000000 dvd U" and small: "\<bar>U\<bar> < 2 ^ 51"
  shows "minuten U = U div 60000000"
proof -
  from dvd obtain k where k: "U = 60000000 * k" by (auto simp: dvd_def)
  have "\<bar>60 * k\<bar> < 2 ^ 53" using small k by simp
  then have a: "round_double (of_int (60 * k)) = of_int (60 * k)"
    by (rule round_double_of_int)
  have "\<bar>k\<bar> < 2 ^ 53" using small k by simp
  then have b: "round_double (of_int k) = of_int k"
    by (rule round_double_of_int)
  have "(of_int U :: rat) / 1000000 = of_int (60 * k)" by (simp add: k)
  then have "truediv (of_int U) 1000000 = of_int (60 * k)"
    by (simp only: truediv_def a)
  moreover have "(of_int (60 * k) :: rat) / 60 = of_int k" by simp
  ultimately have "truediv (truediv (of_int U) 1000000) 60 = of_int k"
    by (simp only: truediv_def b)
  then show ?thesis by (simp add: minuten_def py_int_def k)
qed

lemma minuten_between:
  assumes ndvd: "\<not> 60000000 dvd U" and small: "\<bar>U\<bar> < 2 ^ 51"
  defines "b \<equiv> truediv (truediv (of_int U) 1000000) 60"
  shows "of_int (U div 60000000) < b \<and> b < of_int (U div 60000000) + 1"
proof -
  define x :: rat where "x = of_int U / 1000000"
  define a where "a = round_double x"
  define t :: rat where "t = of_int U / 60000000"
  have b: "b = round_double (a / 60)" by (simp add: b_def truediv_def a_def x_def)
  have xt: "x / 60 = t" by (simp add: x_def t_def)
  have xa: "\<bar>x\<bar> < 2 ^ 51 / 1000000"
  proof -
    have "\<bar>of_int U :: rat\<bar> < 2 ^ 51"
      using small by (metis of_int_abs of_int_less_iff of_int_numeral of_int_power)
    then show ?thesis by (simp add: x_def)
  qed
  have e1: "\<bar>a - x\<bar> \<le> \<bar>x\<bar> / 2 ^ 53" unfolding a_def by (rule round_double_error)
  have e2: "\<bar>b - a / 60\<bar> \<le> \<bar>a / 60\<bar> / 2 ^ 53" unfolding b by (rule round_double_error)
  have "\<bar>x\<bar> / 2 ^ 53 \<le> \<bar>x\<bar>" by simp
  with e1 have a2: "\<bar>a\<bar> \<le> 2 * \<bar>x\<bar>" by linarith
  have "\<bar>b - t\<bar> \<le> \<bar>b - a / 60\<bar> + \<bar>a / 60 - x / 60\<bar>" by (simp add: xt [symmetric])
  also have "\<bar>a / 60 - x / 60\<bar> = \<bar>a - x\<bar> / 60" by (simp flip: diff_divide_distrib)
  also have "\<bar>b - a / 60\<bar> + \<bar>a - x\<bar> / 60 \<le> (2 * \<bar>x\<bar> / 60) / 2 ^ 53 + (\<bar>x\<bar> / 2 ^ 53) / 60"
    using e1 e2 a2 by simp
  also have "\<dots> < 1 / 60000000" using xa by simp
  finally have close: "\<bar>b - t\<bar> < 1 / 60000000" .
  define k where "k = U div 60000000"
  define r where "r = U mod 60000000"
  have r: "1 \<le> r" "r \<le> 59999999"
    using ndvd by (simp_all add: r_def dvd_eq_mod_eq_0)
  have U: "U = 60000000 * k + r" by (simp add: k_def r_def)
  have t: "t = of_int k + of_int r / 60000000" by (simp add: t_def U)
  have "(1::rat) \<le> of_int r" "(of_int r :: rat) \<le> 59999999" using r by linarith+
  then have "of_int k + 1 / 60000000 \<le> t" "t \<le> of_int k + 1 - 1 / 60000000"
    by (simp_all add: t)
  with close show ?thesis unfolding k_def by linarith
qed

lemma minuten_sdiv:
  assumes small: "\<bar>U\<bar> < 2 ^ 51"
  shows "minuten U = U sdiv 60000000"
proof (cases "60000000 dvd U")
  case True
  then obtain k where k: "U = 60000000 * k" by (auto simp: dvd_def)
  have "U sdiv 60000000 = U div 60000000"
    by (cases "k < 0") (simp_all add: k signed_divide_int_def sgn_if abs_mult)
  with minuten_exact [OF True small] show ?thesis by simp
next
  case False
  define k where "k = U div 60000000"
  define r where "r = U mod 60000000"
  define b where "b = truediv (truediv (of_int U) 1000000) 60"
  from minuten_between [OF False small]
  have kb: "of_int k < b" "b < of_int k + 1" by (simp_all add: k_def b_def)
  have U: "U = 60000000 * k + r" by (simp add: k_def r_def)
  have m: "0 < r" "r < 60000000"
    using False by (simp_all add: r_def dvd_eq_mod_eq_0)
  show ?thesis
  proof (cases "0 \<le> b")
    case True
    with kb have "0 \<le> k" by linarith
    then have "0 \<le> U" using U m by linarith
    have "\<lfloor>b\<rfloor> = k" using kb by linarith
    then have "minuten U = k" using True by (simp add: minuten_def py_int_def b_def)
    moreover have "U sdiv 60000000 = k"
      using \<open>0 \<le> U\<close> by (simp add: signed_divide_int_def sgn_if k_def)
    ultimately show ?thesis by simp
  next
    case F: False
    with kb have k: "k < 0" by linarith
    then have "U < 0" using U m by linarith
    have "\<lceil>b\<rceil> = k + 1" using kb by linarith
    then have "minuten U = k + 1" using F by (simp add: minuten_def py_int_def b_def)
    moreover have "U sdiv 60000000 = k + 1"
    proof -
      have "- U = (- k - 1) * 60000000 + (60000000 - r)"
        by (simp add: U algebra_simps)
      moreover have "0 \<le> 60000000 - r" "60000000 - r < 60000000" using m by simp_all
      ultimately have "(- U) div 60000000 = - k - 1"
        by (simp only: div_mult_self3)
      then show ?thesis using \<open>U < 0\<close> by (simp add: signed_divide_int_def sgn_if)
    qed
    ultimately show ?thesis by simp
  qed
qed


section \<open>Properties of the time entries\<close>

lemma total_microseconds_timedelta_init:
  "total_microseconds (timedelta_init d s us) = (d * 86400 + s) * 1000000 + us"
proof -
  define total where "total = (d * 86400 + s) * 1000000 + us"
  have "total mod 86400000000 div 1000000 * 1000000 + total mod 1000000 = total mod 86400000000"
  proof -
    have "total mod 86400000000 mod 1000000 = total mod 1000000"
      by (rule mod_mod_cancel) simp
    then show ?thesis
      by (metis div_mult_mod_eq)
  qed
  moreover have "total div 86400000000 * 86400000000 + total mod 86400000000 = total"
    by simp
  moreover define Q A B C where "Q = total div 86400000000" and "A = total mod 86400000000"
    and "B = total mod 86400000000 div 1000000" and "C = total mod 1000000"
  ultimately have "B * 1000000 + C = A" and "Q * 86400000000 + A = total"
    by simp_all
  then have "(Q * 86400 + B) * 1000000 + C = total"
    by (simp add: algebra_simps)
  then have "(total div 86400000000 * 86400 + total mod 86400000000 div 1000000) * 1000000
             + total mod 1000000 = total"
    by (simp only: Q_def B_def C_def)
  then show ?thesis
    by (simp add: total_microseconds_def timedelta_init_def Let_def total_def)
qed

lemma berechne_dauer_minuten:
  "berechne_dauer s = minuten (total_microseconds (datetime_sub (end_zeit s) (start_zeit s)))"
  by (simp add: berechne_dauer_def minuten_def total_seconds_def Let_def)

lemma berechne_dauer_tatsaechliche_dauer_update [simp]:
  "berechne_dauer (s\<lparr>tatsaechliche_dauer := x\<rparr>) = berechne_dauer s"
  by (simp add: berechne_dauer_def)

lemma tatsaechliche_dauer_Lernsession_init:
  "tatsaechliche_dauer (Lernsession_init d st en mid)
     = minuten (total_microseconds (datetime_sub en st))"
  by (simp add: Lernsession_init_def Let_def berechne_dauer_minuten)

lemma aufwand_schleife_sum:
  "aufwand_schleife m sessions gesamt
     = gesamt + sum_list (map dauer (filter (\<lambda>s. eintrag_modul_id s = m_id m) sessions))"
  by (induction sessions arbitrary: gesamt) simp_all

lemma total_microseconds_datetime_sub:
  "total_microseconds (datetime_sub a b) =
     ((toordinal a - toordinal b) * 86400
      + ((second a + minute a * 60 + hour a * 3600) - (second b + minute b * 60 + hour b * 3600)))
     * 1000000 + (microsecond a - microsecond b)"
  by (simp add: datetime_sub_def total_microseconds_timedelta_init)

lemma sdiv_nonneg_floor:
  assumes "0 \<le> U"
  shows "U sdiv 60000000 = \<lfloor>rat_of_int U / 1000000 / 60\<rfloor>"
proof -
  have "rat_of_int U / 1000000 / 60 = of_int U / of_int 60000000" by simp
  then have "\<lfloor>rat_of_int U / 1000000 / 60\<rfloor> = U div 60000000"
    by (simp only: floor_divide_of_int_eq)
  moreover have "U sdiv 60000000 = U div 60000000"
    using assms by (simp add: signed_divide_int_def sgn_if)
  ultimately show ?thesis by simp
qed

text \<open>
  C8 (as amended). A completed session stores at construction the difference of end and
  start in whole minutes with the fraction dropped, that is rounded toward zero, and
  \<^verbatim>\<open>dauer()\<close> returns the stored value. For an end at or after the start this is the
  floor of the seconds divided by 60. (The bound keeps the two float divisions exact
  enough: the difference is below \<open>2 ^ 51\<close> microseconds, about 71 years.)
\<close>

theorem C8_duration_truncated:
  assumes "\<bar>total_microseconds (datetime_sub en st)\<bar> < 2 ^ 51"
  shows "tatsaechliche_dauer (Lernsession_init d st en mid)
           = total_microseconds (datetime_sub en st) sdiv 60000000
       \<and> dauer (Session (Lernsession_init d st en mid))
           = tatsaechliche_dauer (Lernsession_init d st en mid)
       \<and> (0 \<le> total_microseconds (datetime_sub en st) \<longrightarrow>
            tatsaechliche_dauer (Lernsession_init d st en mid)
              = \<lfloor>rat_of_int (total_microseconds (datetime_sub en st)) / 1000000 / 60\<rfloor>)"
proof -
  have a: "tatsaechliche_dauer (Lernsession_init d st en mid)
           = total_microseconds (datetime_sub en st) sdiv 60000000"
    by (simp only: tatsaechliche_dauer_Lernsession_init minuten_sdiv [OF assms])
  then show ?thesis
    by (simp add: dauer_def sdiv_nonneg_floor)
qed

theorem C8_witness:
  "tatsaechliche_dauer
     (Lernsession_init (datetime_of 2025 1 15 0 0 0) (datetime_of 2025 1 15 14 0 0)
        (datetime_of 2025 1 15 15 30 0) None) = 90
   \<and> dauer (Session
       (Lernsession_init (datetime_of 2025 1 15 0 0 0) (datetime_of 2025 1 15 14 0 0)
          (datetime_of 2025 1 15 15 30 0) None)) = 90"
proof -
  let ?st = "datetime_of 2025 1 15 14 0 0" and ?en = "datetime_of 2025 1 15 15 30 0"
  have U: "total_microseconds (datetime_sub ?en ?st) = 5400000000"
    by (simp add: total_microseconds_datetime_sub toordinal_def datetime_of_def)
  then have "\<bar>total_microseconds (datetime_sub ?en ?st)\<bar> < 2 ^ 51" by simp
  from C8_duration_truncated [OF this, of "datetime_of 2025 1 15 0 0 0" None]
  show ?thesis by (simp add: U signed_divide_int_def)
qed

theorem C8_counterexample:
  "tatsaechliche_dauer
     (Lernsession_init (datetime_of 2025 1 15 0 0 0) (datetime_of 2025 1 15 14 0 30)
        (datetime_of 2025 1 15 14 0 0) None)
   \<noteq> \<lfloor>rat_of_int (total_microseconds
         (datetime_sub (datetime_of 2025 1 15 14 0 0) (datetime_of 2025 1 15 14 0 30)))
       / 1000000 / 60\<rfloor>"
proof -
  let ?st = "datetime_of 2025 1 15 14 0 30" and ?en = "datetime_of 2025 1 15 14 0 0"
  have U: "total_microseconds (datetime_sub ?en ?st) = - 30000000"
    by (simp add: total_microseconds_datetime_sub toordinal_def datetime_of_def)
  have "tatsaechliche_dauer (Lernsession_init (datetime_of 2025 1 15 0 0 0) ?st ?en None)
        = minuten (- 30000000)"
    by (simp only: tatsaechliche_dauer_Lernsession_init U)
  also have "\<dots> = 0" by code_simp
  finally have l: "tatsaechliche_dauer (Lernsession_init (datetime_of 2025 1 15 0 0 0) ?st ?en None) = 0" .
  have "\<lfloor>rat_of_int (- 30000000) / 1000000 / 60\<rfloor> = - 1"
    by (simp add: floor_eq_iff) 
  with l U show ?thesis by simp
qed

text \<open>
  C9 (as amended). The stored duration is derived from start and end once, at
  construction. Start and end are plain attributes: assigning one of them afterwards
  leaves the stored duration as it was.
\<close>

theorem C9_duration_derived_at_construction_only:
  "tatsaechliche_dauer (Lernsession_init d st en mid)
     = berechne_dauer (Lernsession_init d st en mid)
   \<and> tatsaechliche_dauer (s\<lparr>start_zeit := t\<rparr>) = tatsaechliche_dauer s
   \<and> tatsaechliche_dauer (s\<lparr>end_zeit := t\<rparr>) = tatsaechliche_dauer s"
  by (simp add: Lernsession_init_def Let_def berechne_dauer_def)

theorem C9_counterexample:
  "tatsaechliche_dauer
     ((Lernsession_init (datetime_of 2025 1 15 0 0 0) (datetime_of 2025 1 15 14 0 0)
         (datetime_of 2025 1 15 15 30 0) None)
      \<lparr>end_zeit := datetime_of 2025 1 15 16 0 0\<rparr>)
   \<noteq> berechne_dauer
     ((Lernsession_init (datetime_of 2025 1 15 0 0 0) (datetime_of 2025 1 15 14 0 0)
         (datetime_of 2025 1 15 15 30 0) None)
      \<lparr>end_zeit := datetime_of 2025 1 15 16 0 0\<rparr>)"
proof -
  let ?d = "datetime_of 2025 1 15 0 0 0" and ?st = "datetime_of 2025 1 15 14 0 0"
  let ?s = "Lernsession_init ?d ?st (datetime_of 2025 1 15 15 30 0) None"
  have "total_microseconds (datetime_sub (datetime_of 2025 1 15 15 30 0) ?st) = 5400000000"
    by (simp add: total_microseconds_datetime_sub toordinal_def datetime_of_def)
  then have "tatsaechliche_dauer ?s = minuten 5400000000"
    by (simp only: tatsaechliche_dauer_Lernsession_init)
  also have "\<dots> = 90" by code_simp
  finally have stored: "tatsaechliche_dauer (?s\<lparr>end_zeit := datetime_of 2025 1 15 16 0 0\<rparr>) = 90"
    by simp
  have "start_zeit ?s = ?st" by (simp add: Lernsession_init_def Let_def)
  moreover have "total_microseconds (datetime_sub (datetime_of 2025 1 15 16 0 0) ?st) = 7200000000"
    by (simp add: total_microseconds_datetime_sub toordinal_def datetime_of_def)
  ultimately have "berechne_dauer (?s\<lparr>end_zeit := datetime_of 2025 1 15 16 0 0\<rparr>)
                   = minuten 7200000000"
    by (simp add: berechne_dauer_minuten)
  also have "\<dots> = 120" by code_simp
  finally show ?thesis using stored by simp
qed

text \<open>
  C10. \<^verbatim>\<open>berechne_aufwand\<close> adds up \<^verbatim>\<open>dauer()\<close> over exactly the entries whose module
  reference equals the identity of the module, whatever the class of the entry: a planned
  session contributes its planned minutes. A module without identity matches the entries
  without module reference. In the example the module has no identity; the planned
  session and the completed session without reference count (30 + 90), the planned
  session of module 1 does not.
\<close>

theorem C10_effort_sums_matching_entries:
  "berechne_aufwand m sessions
     = sum_list (map dauer (filter (\<lambda>s. eintrag_modul_id s = m_id m) sessions))
   \<and> dauer (Termin t) = geplante_dauer t
   \<and> dauer (Session l) = tatsaechliche_dauer l
   \<and> berechne_aufwand (Modul_init ''Analysis'' 5 OFFEN 1)
       [Termin (Lerntermin_init (datetime_of 2025 1 15 0 0 0) (datetime_of 2025 1 15 9 0 0)
                  30 ''Skript lesen'' None),
        Session (Lernsession_init (datetime_of 2025 1 15 0 0 0) (datetime_of 2025 1 15 14 0 0)
                  (datetime_of 2025 1 15 15 30 0) None),
        Termin (Lerntermin_init (datetime_of 2025 1 16 0 0 0) (datetime_of 2025 1 16 9 0 0)
                  45 ''Uebungsblatt'' (Some 1))] = 120"
proof (intro conjI)
  show "berechne_aufwand m sessions
     = sum_list (map dauer (filter (\<lambda>s. eintrag_modul_id s = m_id m) sessions))"
    by (simp add: berechne_aufwand_def aufwand_schleife_sum)
next
  have "total_microseconds (datetime_sub (datetime_of 2025 1 15 15 30 0)
          (datetime_of 2025 1 15 14 0 0)) = 5400000000"
    by (simp add: total_microseconds_datetime_sub toordinal_def datetime_of_def)
  then have "tatsaechliche_dauer
      (Lernsession_init (datetime_of 2025 1 15 0 0 0) (datetime_of 2025 1 15 14 0 0)
         (datetime_of 2025 1 15 15 30 0) None) = minuten 5400000000"
    by (simp only: tatsaechliche_dauer_Lernsession_init)
  also have "\<dots> = 90" by code_simp
  finally have d: "dauer (Session
      (Lernsession_init (datetime_of 2025 1 15 0 0 0) (datetime_of 2025 1 15 14 0 0)
         (datetime_of 2025 1 15 15 30 0) None)) = 90"
    by (simp add: dauer_def)
  have m: "modul_id (Lernsession_init (datetime_of 2025 1 15 0 0 0)
      (datetime_of 2025 1 15 14 0 0) (datetime_of 2025 1 15 15 30 0) None) = None"
    by (simp add: Lernsession_init_def Let_def)
  show "berechne_aufwand (Modul_init ''Analysis'' 5 OFFEN 1)
       [Termin (Lerntermin_init (datetime_of 2025 1 15 0 0 0) (datetime_of 2025 1 15 9 0 0)
                  30 ''Skript lesen'' None),
        Session (Lernsession_init (datetime_of 2025 1 15 0 0 0) (datetime_of 2025 1 15 14 0 0)
                  (datetime_of 2025 1 15 15 30 0) None),
        Termin (Lerntermin_init (datetime_of 2025 1 16 0 0 0) (datetime_of 2025 1 16 9 0 0)
                  45 ''Uebungsblatt'' (Some 1))] = 120"
    by (simp add: berechne_aufwand_def eintrag_modul_id_def Modul_init_def m d)
       (simp add: dauer_def Lerntermin_init_def)
qed (simp_all add: dauer_def)


section \<open>Properties of the semester generation\<close>

lemma jahresueberlauf_month:
  assumes "1 \<le> m" "m \<le> 12"
  shows "jahresueberlauf (m + 6) y = (if 6 < m then (m - 6, y + 1) else (m + 6, y))"
  using assms by (simp add: jahresueberlauf.simps [of "m + 6"] jahresueberlauf.simps [of "m - 6"])

text \<open>
  The example of the specification: from 2024-10-01 with six semesters, semester 1 runs
  from 2024-10-01 to 2025-03-31 and semester 2 starts on 2025-04-01; six semesters
  numbered 1 to 6 are generated.
\<close>

lemma generiere_semester_beispiel:
  "(case generiere_semester (Studiengang_init ''Informatik'' 6 2) (datetime_of 2024 10 1 0 0 0) of
      Inl _ \<Rightarrow> False
    | Inr sg \<Rightarrow>
        map nummer (semester_liste sg) = [1, 2, 3, 4, 5, 6]
        \<and> start_datum (semester_liste sg ! 0) = datetime_of 2024 10 1 0 0 0
        \<and> end_datum (semester_liste sg ! 0) = datetime_of 2025 3 31 0 0 0
        \<and> start_datum (semester_liste sg ! 1) = datetime_of 2025 4 1 0 0 0)"
  by code_simp

text \<open>
  C6. The claim promises the semesters for every start date. A start on a day of the
  month that the month six months later does not have is a missed case: for 2024-08-31
  the cursor would move to 2025-02-31, \<^verbatim>\<open>replace\<close> raises \<^verbatim>\<open>ValueError\<close> in the first
  iteration, nothing in the method catches it, and the semester list, emptied at the start,
  stays empty.
\<close>

theorem C6_generiere_semester_raises_on_day_31:
  "generiere_semester (Studiengang_init ''Informatik'' 6 2) (datetime_of 2024 8 31 0 0 0)
     = Inl (ValueError ''day is out of range for month'', Studiengang_init ''Informatik'' 6 2)"
  by code_simp

section \<open>Properties of the semester average\<close>















section \<open>The store: what a save writes\<close>













lemma hat_id_update_zeile [simp]: "hat_id (update_zeile t i f) j = hat_id t j"
proof -
  have "map fst (map (\<lambda>(j, r). if j = i then (j, f r) else (j, r)) (zeilen t)) = map fst (zeilen t)"
    by (induction "zeilen t" arbitrary: t) (auto split: prod.splits)
  then show ?thesis by (simp add: hat_id_def update_zeile_def)
qed
















section \<open>The store: saving and loading a program\<close>



























end
